theory Spec2Isabelle
  imports Main "HOL-Library.Multiset"
begin

section \<open>Initial form values of the patient registration form\<close>

text \<open>
  A shallow embedding of \<^verbatim>\<open>patient-registration-hooks\<close> (the hooks that assemble the
  initial state of the registration form) and of the effect of the
  \<^verbatim>\<open>PatientRegistration\<close> component that copies the master-index state into the
  local one.

  A React effect is modelled by what it does with the state it is given: an effect that
  calls the setter with an updater function is a function on the state; an asynchronous
  effect that reads the synchronisation queue is the list of the actions it performs
  (a trace), ending with a \<open>Throw\<close> when the promise rejects.  The values the hooks
  obtain from outside (fetch results, loading flags, the queue, the configuration, the
  date library) are fields of records passed to every definition.
\<close>

subsection \<open>Values and errors\<close>

text \<open>A value of a REST payload: a scalar, \<^verbatim>\<open>null\<close>, \<^verbatim>\<open>undefined\<close>, or a resource
  object, of which only the (optional) \<^verbatim>\<open>uuid\<close> is ever read.\<close>

datatype rest_value =
    Undefined
  | Null
  | Str string
  | Num int
  | Boolean bool
  | Resource "string option"

text \<open>\<^verbatim>\<open>typeof value === 'object'\<close>: true of objects and of \<^verbatim>\<open>null\<close>.\<close>

fun typeof_object :: "rest_value \<Rightarrow> bool" where
  "typeof_object Null = True"
| "typeof_object (Resource u) = True"
| "typeof_object v = False"

text \<open>\<^verbatim>\<open>value?.uuid\<close>.  On a scalar the property does not exist.\<close>

fun opt_uuid :: "rest_value \<Rightarrow> rest_value" where
  "opt_uuid (Resource (Some u)) = Str u"
| "opt_uuid v = Undefined"

datatype js_error = TypeError

text \<open>What an effect does, in order.  \<open>Throw\<close> is last when it occurs: the promise of the
  asynchronous function rejects and nothing after it runs.\<close>

datatype 's event =
    ReadQueue
  | ConsoleError string
  | SetState 's
  | Throw js_error

text \<open>The state after an effect: the argument of the last call of the setter, if any.\<close>

fun state_after :: "'s \<Rightarrow> 's event list \<Rightarrow> 's" where
  "state_after s [] = s"
| "state_after s (SetState t # evs) = state_after t evs"
| "state_after s (ev # evs) = state_after s evs"

subsection \<open>The form state\<close>

type_synonym dictionary = "string \<rightharpoonup> string"

record identifier_record =
  identifierUuid :: string
  preferred :: bool
  initialValue :: string
  identifierValue :: string
  identifierTypeUuid :: string
  identifierName :: string
  required :: bool
  selectedSource :: "string option"
  autoGeneration :: bool

text \<open>\<^verbatim>\<open>RelationshipValue\<close> is declared outside the hooks; they only pass the list on.\<close>

datatype relationship = Relationship string

text \<open>\<^verbatim>\<open>FormValues\<close>.  A field that can be \<^verbatim>\<open>null\<close> or \<^verbatim>\<open>undefined\<close> is an option;
  a JavaScript \<^verbatim>\<open>Date\<close> is its time value in milliseconds.\<close>

record form_values =
  patientUuid :: string
  givenName :: string
  middleName :: string
  familyName :: string
  additionalGivenName :: string
  additionalMiddleName :: string
  additionalFamilyName :: string
  addNameInLocalLanguage :: bool
  gender :: string
  birthdate :: "string option"
  yearsEstimated :: int
  monthsEstimated :: int
  birthdateEstimated :: bool
  telephoneNumber :: string
  isDead :: bool
  deathDate :: "int option"
  deathTime :: "string option"
  deathTimeFormat :: string
  deathCause :: "string option"
  nonCodedCauseOfDeath :: "string option"
  relationships :: "relationship list"
  identifiers :: "string \<rightharpoonup> identifier_record"
  address :: dictionary
  attributes :: "(string \<rightharpoonup> rest_value) option"
  obs :: "(string \<rightharpoonup> rest_value) option"

text \<open>The object literal given to \<^verbatim>\<open>useState\<close> by both hooks; \<open>u\<close> is the result of
  the call \<^verbatim>\<open>v4()\<close> made there.\<close>

definition default_form_values :: "string \<Rightarrow> form_values" where
  "default_form_values u =
     \<lparr> patientUuid = u,
       givenName = '''',
       middleName = '''',
       familyName = '''',
       additionalGivenName = '''',
       additionalMiddleName = '''',
       additionalFamilyName = '''',
       addNameInLocalLanguage = False,
       gender = '''',
       birthdate = None,
       yearsEstimated = 0,
       monthsEstimated = 0,
       birthdateEstimated = False,
       telephoneNumber = '''',
       isDead = False,
       deathDate = None,
       deathTime = None,
       deathTimeFormat = ''AM'',
       deathCause = Some '''',
       nonCodedCauseOfDeath = Some '''',
       relationships = [],
       identifiers = Map.empty,
       address = Map.empty,
       attributes = None,
       obs = None \<rparr>"

subsection \<open>What the hooks read from outside\<close>

text \<open>A FHIR patient: the hooks read \<^verbatim>\<open>birthDate\<close> and test \<^verbatim>\<open>identifier\<close> for
  presence (both optional in FHIR); everything else is handed to helpers of
  \<^verbatim>\<open>patient-registration-utils\<close>.\<close>

record 'r fhir_patient =
  birthDate :: "string option"
  identifiers_of :: "string list option"
  resource :: 'r

text \<open>\<^verbatim>\<open>OpenmrsResource\<close>\<close>

record openmrs_resource =
  resourceUuid :: string
  display :: string

record death_info =
  causeOfDeath :: "openmrs_resource option"
  dead :: bool
  deathDateStr :: "string option"
  causeOfDeathNonCoded :: "string option"

record attribute_type =
  attributeTypeUuid :: string
  format :: string

record person_attribute =
  attributeUuid :: string
  attributeType :: attribute_type
  attributeValue :: rest_value

record identifier_type =
  typeUuid :: string
  typeRequired :: bool
  typeName :: string

record patient_identifier =
  piUuid :: string
  piIdentifier :: string
  piIdentifierType :: identifier_type
  piPreferred :: bool

record observation =
  concept :: string
  obsValue :: rest_value

record encounter =
  encounterDatetime :: string
  encounterObs :: "observation list"

text \<open>An item of the synchronisation queue (\<^verbatim>\<open>_patientRegistrationData\<close>); both parts
  may be missing.\<close>

record patient_registration =
  formValues :: "form_values option"
  initialAddressFieldValues :: "dictionary option"

text \<open>The results of the framework hooks at one render of \<^verbatim>\<open>useInitialFormValuesLocal\<close>
  (\<^verbatim>\<open>usePatient\<close>, the \<^verbatim>\<open>useSWR\<close> requests, \<^verbatim>\<open>useInitialPatientRelationships\<close>),
  and the content of the queue.  \<open>None\<close> is \<^verbatim>\<open>undefined\<close>: the request has not
  answered, has failed, or was not made for lack of an identifier.\<close>

record 'r sources =
  patientToEdit :: "'r fhir_patient option"
  isLoadingPatientToEdit :: bool
  deathInfo :: "death_info option"
  isLoadingDeathInfo :: bool
  attributeResults :: "person_attribute list option"
  isLoadingAttributes :: bool
  identifierResults :: "patient_identifier list option"
  isLoadingIdentifiers :: bool
  relationshipData :: "relationship list option"
  isLoadingRelationships :: bool
  encounterResults :: "encounter list option"
  queue :: "patient_registration list"

text \<open>The parts of \<^verbatim>\<open>RegistrationConfig\<close> that are read.\<close>

record config =
  freeTextFieldConceptUuid :: string
  phonePersonAttributeUuid :: string
  encounterTypeUuid :: string

text \<open>The date functions of JavaScript and dayjs, which depend on the clock and the time
  zone: \<^verbatim>\<open>new Date(s).getTime()\<close>, \<^verbatim>\<open>dayjs(d).format('hh:mm')\<close>,
  \<^verbatim>\<open>dayjs(d).hour()\<close> and \<^verbatim>\<open>dayjs().diff(s, 'month')\<close> (a whole number).\<close>

record date_lib =
  dateParse :: "string \<Rightarrow> int"
  formatTime :: "int \<Rightarrow> string"
  hourOf :: "int \<Rightarrow> nat"
  monthsSince :: "string \<Rightarrow> int"

text \<open>The helpers of \<^verbatim>\<open>patient-registration-utils\<close>, which the hooks import.  A
  helper whose result is spread into an object literal, \<^verbatim>\<open>{...o, ...helper(p)}\<close>, is
  given as the overlay it makes on \<open>o\<close> (the fields named \<open>spread\<close>\<dots>).
  \<^verbatim>\<open>getIdentifierFieldValuesFromFhirPatient\<close> stands for the helper applied to the
  configured identifier mappings, with its promise resolved.\<close>

record 'r helpers =
  spreadFormValuesFromFhirPatient :: "'r fhir_patient \<Rightarrow> form_values \<Rightarrow> form_values"
  getAddressFieldValuesFromFhirPatient :: "'r fhir_patient \<Rightarrow> dictionary"
  spreadPhonePersonAttributeValueFromFhirPatient ::
    "'r fhir_patient \<Rightarrow> string \<Rightarrow> form_values \<Rightarrow> form_values"
  getPhonePersonAttributeValueFromFhirPatient ::
    "'r fhir_patient \<Rightarrow> string \<Rightarrow> (string \<rightharpoonup> rest_value)"
  getIdentifierFieldValuesFromFhirPatient ::
    "'r fhir_patient \<Rightarrow> (string \<rightharpoonup> identifier_record)"
  getPatientUuidMapFromFhirPatient :: "'r fhir_patient \<Rightarrow> dictionary"

subsection \<open>Strings\<close>

definition is_digit :: "char \<Rightarrow> bool" where
  "is_digit c = (c \<in> set ''0123456789'')"

text \<open>\<^verbatim>\<open>/^\d{4}-\d{2}-\d{2}$/.test(s)\<close>\<close>

definition full_date :: "string \<Rightarrow> bool" where
  "full_date s =
     (length s = 10 \<and>
      list_all is_digit (take 4 s) \<and> s ! 4 = CHR ''-'' \<and>
      list_all is_digit (take 2 (drop 5 s)) \<and> s ! 7 = CHR ''-'' \<and>
      list_all is_digit (drop 8 s))"

text \<open>\<^verbatim>\<open>s.split(c)\<close> for a separator of one character.\<close>

fun split :: "char \<Rightarrow> string \<Rightarrow> string list" where
  "split c [] = [[]]"
| "split c (x # xs) =
     (if x = c then [] # split c xs
      else (case split c xs of [] \<Rightarrow> [[x]] | w # ws \<Rightarrow> (x # w) # ws))"

text \<open>\<^verbatim>\<open>a % b\<close> on whole numbers: the remainder has the sign of \<open>a\<close>.\<close>

definition js_rem :: "int \<Rightarrow> int \<Rightarrow> int" where
  "js_rem a b = sgn a * (\<bar>a\<bar> mod \<bar>b\<bar>)"

subsection \<open>The synchronisation queue\<close>

text \<open>\<^verbatim>\<open>getPatientRegistration\<close>: \<^verbatim>\<open>items.find\<close> with a predicate that reads
  \<^verbatim>\<open>formValues.patientUuid\<close>, a \<open>TypeError\<close> on an item without \<^verbatim>\<open>formValues\<close>.\<close>

fun getPatientRegistration ::
  "string \<Rightarrow> patient_registration list \<Rightarrow> js_error + patient_registration option" where
  "getPatientRegistration uuid [] = Inr None"
| "getPatientRegistration uuid (item # items) =
     (case formValues item of
        None \<Rightarrow> Inl TypeError
      | Some fv \<Rightarrow>
          if patientUuid fv = uuid then Inr (Some item)
          else getPatientRegistration uuid items)"

subsection \<open>useInitialFormValuesLocal\<close>

definition no_form_values_message :: "string \<Rightarrow> string" where
  "no_form_values_message uuid =
     ''Found a queued offline patient registration for patient '' @ uuid @
     '', but without form values. Not using these values.''"

text \<open>The first effect.  \<open>uuid\<close> is the argument of the hook (an absent identifier is
  falsy like the empty string) and \<open>s\<close> the state of the render the effect belongs to.
  The values \<^verbatim>\<open>years\<close> and \<^verbatim>\<open>months\<close> parsed on the second line of the source are
  never used and are left out.  \<^verbatim>\<open>Math.floor(n / 12)\<close> of a whole number \<open>n\<close> is
  \<open>n div 12\<close>.  Reading \<^verbatim>\<open>_patientRegistrationData\<close> of the \<^verbatim>\<open>undefined\<close> that
  \<^verbatim>\<open>find\<close> returns when nothing matches is a \<open>TypeError\<close>.\<close>

definition core_record_effect ::
  "date_lib \<Rightarrow> 'r helpers \<Rightarrow> config \<Rightarrow> 'r sources \<Rightarrow> string \<Rightarrow> form_values
     \<Rightarrow> form_values event list" where
  "core_record_effect lib h cfg src uuid s =
     (case patientToEdit src of
        Some p \<Rightarrow>
          (case birthDate p of
             None \<Rightarrow> [Throw TypeError]
           | Some bd \<Rightarrow>
               let birthdateEstimated' = \<not> full_date bd;
                   estimatedMonthsAvailable = length (split CHR ''-'' bd) > 1;
                   yearsEstimated' =
                     (if birthdateEstimated' then monthsSince lib bd div 12 else 0);
                   monthsEstimated' =
                     (if birthdateEstimated' \<and> estimatedMonthsAvailable
                      then js_rem (monthsSince lib bd) 12 else 0)
               in [SetState
                     ((spreadPhonePersonAttributeValueFromFhirPatient h p
                         (phonePersonAttributeUuid cfg)
                         ((spreadFormValuesFromFhirPatient h p s)
                            \<lparr> address := getAddressFieldValuesFromFhirPatient h p \<rparr>))
                        \<lparr> birthdateEstimated := \<not> full_date bd,
                          yearsEstimated := yearsEstimated',
                          monthsEstimated := monthsEstimated' \<rparr>)])
      | None \<Rightarrow>
          if \<not> isLoadingPatientToEdit src \<and> uuid \<noteq> '''' then
            ReadQueue #
            (case getPatientRegistration uuid (queue src) of
               Inl e \<Rightarrow> [Throw e]
             | Inr None \<Rightarrow> [Throw TypeError]
             | Inr (Some registration) \<Rightarrow>
                 (case formValues registration of
                    None \<Rightarrow> [ConsoleError (no_form_values_message uuid)]
                  | Some fv \<Rightarrow> [SetState fv]))
          else [])"

text \<open>Truthiness of a string that may be \<^verbatim>\<open>null\<close>.\<close>

fun truthy :: "string option \<Rightarrow> bool" where
  "truthy None = False"
| "truthy (Some t) = (t \<noteq> '''')"

text \<open>The effects that merge one source each.  They call the setter with an updater
  function, which React applies to the latest state.\<close>

definition death_info_effect ::
  "date_lib \<Rightarrow> config \<Rightarrow> 'r sources \<Rightarrow> form_values \<Rightarrow> form_values" where
  "death_info_effect lib cfg src s =
     (case deathInfo src of
        None \<Rightarrow> s
      | Some di \<Rightarrow>
          if \<not> isLoadingDeathInfo src \<and> dead di then
            let deathDatetime =
                  (if truthy (deathDateStr di) then deathDateStr di else None);
                deathDate' = map_option (dateParse lib) deathDatetime;
                time = map_option (formatTime lib) deathDate';
                timeFormat =
                  (case deathDate' of
                     None \<Rightarrow> ''AM''
                   | Some d \<Rightarrow> if hourOf lib d \<ge> 12 then ''PM'' else ''AM'')
            in s \<lparr> isDead := dead di \<or> False,
                   deathDate := deathDate',
                   deathTime := time,
                   deathTimeFormat := timeFormat,
                   deathCause :=
                     (if truthy (causeOfDeathNonCoded di)
                      then Some (freeTextFieldConceptUuid cfg)
                      else map_option resourceUuid (causeOfDeath di)),
                   nonCodedCauseOfDeath := causeOfDeathNonCoded di \<rparr>
          else s)"

definition relationships_effect :: "'r sources \<Rightarrow> form_values \<Rightarrow> form_values" where
  "relationships_effect src s =
     (case relationshipData src of
        None \<Rightarrow> s
      | Some rels \<Rightarrow>
          if \<not> isLoadingRelationships src then s \<lparr> relationships := rels \<rparr> else s)"

subsection \<open>Identifier keys\<close>

text \<open>
  The key of an identifier is \<^verbatim>\<open>camelCase\<close> of lodash applied to the name of its type.
  lodash computes \<^verbatim>\<open>words(deburr(s).replace(reApos, ''))\<close>, lower-cases each word and
  capitalises every word but the first.  \<^verbatim>\<open>words\<close> uses \<^verbatim>\<open>asciiWords\<close> unless
  \<^verbatim>\<open>reHasUnicodeWord\<close> matches.  A string on which that test fails consists of ASCII
  letters, digits and spaces, so \<^verbatim>\<open>deburr\<close> and the removal of apostrophes leave it as
  it is, and its words are those of \<^verbatim>\<open>asciiWords\<close>: this case is written out below.
  The word list that lodash computes for any other string is the parameter \<open>otherWords\<close>.
\<close>

definition upper_letters :: string where
  "upper_letters = ''ABCDEFGHIJKLMNOPQRSTUVWXYZ''"

definition lower_letters :: string where
  "lower_letters = ''abcdefghijklmnopqrstuvwxyz''"

definition is_upper :: "char \<Rightarrow> bool" where
  "is_upper c = (c \<in> set upper_letters)"

definition is_lower :: "char \<Rightarrow> bool" where
  "is_lower c = (c \<in> set lower_letters)"

definition is_letter :: "char \<Rightarrow> bool" where
  "is_letter c = (is_lower c \<or> is_upper c)"

definition lower_char :: "char \<Rightarrow> char" where
  "lower_char c = (case map_of (zip upper_letters lower_letters) c of Some d \<Rightarrow> d | None \<Rightarrow> c)"

definition upper_char :: "char \<Rightarrow> char" where
  "upper_char c = (case map_of (zip lower_letters upper_letters) c of Some d \<Rightarrow> d | None \<Rightarrow> c)"

definition toLowerCase :: "string \<Rightarrow> string" where
  "toLowerCase s = map lower_char s"

definition upperFirst :: "string \<Rightarrow> string" where
  "upperFirst s = (case s of [] \<Rightarrow> [] | c # cs \<Rightarrow> upper_char c # cs)"

definition capitalize :: "string \<Rightarrow> string" where
  "capitalize s = upperFirst (toLowerCase s)"

text \<open>\<^verbatim>\<open>/[a-z][A-Z]|[A-Z]{2}[a-z]|[0-9][a-zA-Z]|[a-zA-Z][0-9]|[^a-zA-Z0-9 ]/.test(s)\<close>\<close>

fun hasUnicodeWord :: "string \<Rightarrow> bool" where
  "hasUnicodeWord [] = False"
| "hasUnicodeWord (c # cs) =
     ((\<not> is_letter c \<and> \<not> is_digit c \<and> c \<noteq> CHR '' '') \<or>
      (case cs of
         [] \<Rightarrow> False
       | d # ds \<Rightarrow>
           (is_lower c \<and> is_upper d) \<or>
           (is_upper c \<and> is_upper d \<and> (case ds of [] \<Rightarrow> False | e # es \<Rightarrow> is_lower e)) \<or>
           (is_digit c \<and> is_letter d) \<or>
           (is_letter c \<and> is_digit d)) \<or>
      hasUnicodeWord cs)"

text \<open>\<^verbatim>\<open>s.match(/[^\x00-\x2f\x3a-\x40\x5b-\x60\x7b-\x7f]+/g) || []\<close>: the maximal runs
  of digits, letters and characters above \<^verbatim>\<open>\x7f\<close>.  \<open>cur\<close> is the run being read.\<close>

definition ascii_word_char :: "char \<Rightarrow> bool" where
  "ascii_word_char c = (is_digit c \<or> is_letter c \<or> (of_char c :: nat) > 127)"

fun words_from :: "string \<Rightarrow> string \<Rightarrow> string list" where
  "words_from cur [] = (if cur = [] then [] else [cur])"
| "words_from cur (c # cs) =
     (if ascii_word_char c then words_from (cur @ [c]) cs
      else if cur = [] then words_from [] cs
      else cur # words_from [] cs)"

definition asciiWords :: "string \<Rightarrow> string list" where
  "asciiWords s = words_from [] s"

text \<open>The reduction of \<^verbatim>\<open>createCompounder\<close> with the callback of \<^verbatim>\<open>camelCase\<close>;
  \<open>i\<close> is the index of the next word.\<close>

fun compound :: "nat \<Rightarrow> string \<Rightarrow> string list \<Rightarrow> string" where
  "compound i result [] = result"
| "compound i result (w # ws) =
     compound (Suc i)
       (result @ (let word = toLowerCase w in if i \<noteq> 0 then capitalize word else word)) ws"

text \<open>\<^verbatim>\<open>words(s)\<close> without a pattern.\<close>

definition words :: "(string \<Rightarrow> string list) \<Rightarrow> string \<Rightarrow> string list" where
  "words otherWords s = (if hasUnicodeWord s then otherWords s else asciiWords s)"

definition camelCase :: "(string \<Rightarrow> string list) \<Rightarrow> string \<Rightarrow> string" where
  "camelCase otherWords s = compound 0 [] (words otherWords s)"

subsection \<open>useInitialPatientIdentifiers\<close>

definition identifier_entry :: "patient_identifier \<Rightarrow> identifier_record" where
  "identifier_entry patientIdentifier =
     \<lparr> identifierUuid = piUuid patientIdentifier,
       preferred = piPreferred patientIdentifier,
       initialValue = piIdentifier patientIdentifier,
       identifierValue = piIdentifier patientIdentifier,
       identifierTypeUuid = typeUuid (piIdentifierType patientIdentifier),
       identifierName = typeName (piIdentifierType patientIdentifier),
       required = typeRequired (piIdentifierType patientIdentifier),
       selectedSource = None,
       autoGeneration = False \<rparr>"

text \<open>The \<^verbatim>\<open>forEach\<close> over the results; a later identifier replaces an earlier one with
  the same key.  Without results the object stays empty.\<close>

definition useInitialPatientIdentifiers ::
  "(string \<Rightarrow> string list) \<Rightarrow> 'r sources \<Rightarrow> (string \<rightharpoonup> identifier_record)" where
  "useInitialPatientIdentifiers otherWords src =
     fold (\<lambda>patientIdentifier ids.
             ids(camelCase otherWords (typeName (piIdentifierType patientIdentifier))
                   \<mapsto> identifier_entry patientIdentifier))
       (case identifierResults src of None \<Rightarrow> [] | Some results \<Rightarrow> results)
       Map.empty"

text \<open>The data of the hook is always an object, which is truthy.\<close>

definition identifiers_effect ::
  "(string \<Rightarrow> string list) \<Rightarrow> 'r sources \<Rightarrow> form_values \<Rightarrow> form_values" where
  "identifiers_effect otherWords src s =
     (if \<not> isLoadingIdentifiers src
      then s \<lparr> identifiers := useInitialPatientIdentifiers otherWords src \<rparr>
      else s)"

subsection \<open>Person attributes\<close>

definition attribute_form_value :: "person_attribute \<Rightarrow> rest_value" where
  "attribute_form_value attribute =
     (if format (attributeType attribute) = ''org.openmrs.Concept''
         \<and> typeof_object (attributeValue attribute)
      then opt_uuid (attributeValue attribute)
      else attributeValue attribute)"

definition attributes_effect :: "'r sources \<Rightarrow> form_values \<Rightarrow> form_values" where
  "attributes_effect src s =
     (case attributeResults src of
        None \<Rightarrow> s
      | Some attrs \<Rightarrow>
          if \<not> isLoadingAttributes src then
            s \<lparr> attributes :=
                  Some (fold (\<lambda>attribute personAttributes.
                                personAttributes(attributeTypeUuid (attributeType attribute)
                                                   \<mapsto> attribute_form_value attribute))
                          attrs Map.empty) \<rparr>
          else s)"

subsection \<open>useInitialEncounters\<close>

text \<open>\<^verbatim>\<open>xs.sort(cmp)\<close>: a stable sort; \<open>x\<close> stays before \<open>y\<close> unless \<open>cmp x y\<close> is
  positive.\<close>

fun insert_sorted :: "('a \<Rightarrow> 'a \<Rightarrow> int) \<Rightarrow> 'a \<Rightarrow> 'a list \<Rightarrow> 'a list" where
  "insert_sorted cmp x [] = [x]"
| "insert_sorted cmp x (y # ys) =
     (if cmp x y \<le> 0 then x # y # ys else y # insert_sorted cmp x ys)"

definition sort_with :: "('a \<Rightarrow> 'a \<Rightarrow> int) \<Rightarrow> 'a list \<Rightarrow> 'a list" where
  "sort_with cmp xs = foldr (insert_sorted cmp) xs []"

text \<open>Modelled from the spec: \<^verbatim>\<open>latestFirstEncounter\<close>, the comparator imported from
  \<^verbatim>\<open>patient-registration-utils\<close>, which is not among the sources.  The spec orders the
  encounters by encounter datetime, descending.\<close>

definition latestFirstEncounter :: "date_lib \<Rightarrow> encounter \<Rightarrow> encounter \<Rightarrow> int" where
  "latestFirstEncounter lib a b =
     dateParse lib (encounterDatetime b) - dateParse lib (encounterDatetime a)"

definition observation_value :: "observation \<Rightarrow> rest_value" where
  "observation_value ob =
     (if typeof_object (obsValue ob) then opt_uuid (obsValue ob) else obsValue ob)"

text \<open>\<^verbatim>\<open>obs.map(...).reduce((accu, curr) => Object.assign(accu, curr), {})\<close>\<close>

definition observation_map :: "observation list \<Rightarrow> (string \<rightharpoonup> rest_value)" where
  "observation_map obss =
     fold (\<lambda>ob accu. accu(concept ob \<mapsto> observation_value ob)) obss Map.empty"

text \<open>The request is made only if there is a patient to edit and an encounter type is
  configured; the type is part of the request.  \<^verbatim>\<open>.at(0)\<close> of an empty list is
  \<^verbatim>\<open>undefined\<close>, and so is the result then.\<close>

definition useInitialEncounters ::
  "date_lib \<Rightarrow> config \<Rightarrow> 'r sources \<Rightarrow> (string \<rightharpoonup> rest_value) option" where
  "useInitialEncounters lib cfg src =
     (if patientToEdit src \<noteq> None \<and> encounterTypeUuid cfg \<noteq> '''' then
        (case encounterResults src of
           None \<Rightarrow> None
         | Some results \<Rightarrow>
             (case sort_with (latestFirstEncounter lib) results of
                [] \<Rightarrow> None
              | e # es \<Rightarrow> Some (observation_map (encounterObs e))))
      else None)"

definition encounters_effect ::
  "date_lib \<Rightarrow> config \<Rightarrow> 'r sources \<Rightarrow> form_values \<Rightarrow> form_values" where
  "encounters_effect lib cfg src s =
     (case patientToEdit src of
        None \<Rightarrow> s
      | Some p \<Rightarrow>
          (case useInitialEncounters lib cfg src of
             None \<Rightarrow> s
           | Some encounters \<Rightarrow> s \<lparr> obs := Some encounters \<rparr>))"

subsection \<open>The effects of useInitialFormValuesLocal, in any order\<close>

datatype effect =
    CoreRecord
  | DeathInfo
  | Relationships
  | Identifiers
  | Attributes
  | Encounters

text \<open>The library parameters of the hook together.\<close>

record 'r env =
  env_lib :: date_lib
  env_helpers :: "'r helpers"
  env_words :: "string \<Rightarrow> string list"
  env_cfg :: config

fun run_effect ::
  "'r env \<Rightarrow> 'r sources \<Rightarrow> string \<Rightarrow> effect \<Rightarrow> form_values \<Rightarrow> form_values" where
  "run_effect e src uuid CoreRecord s =
     state_after s (core_record_effect (env_lib e) (env_helpers e) (env_cfg e) src uuid s)"
| "run_effect e src uuid DeathInfo s = death_info_effect (env_lib e) (env_cfg e) src s"
| "run_effect e src uuid Relationships s = relationships_effect src s"
| "run_effect e src uuid Identifiers s = identifiers_effect (env_words e) src s"
| "run_effect e src uuid Attributes s = attributes_effect src s"
| "run_effect e src uuid Encounters s = encounters_effect (env_lib e) (env_cfg e) src s"

text \<open>The state of the hook after the effects \<open>effs\<close> have run one after the other,
  from the initial state with the generated identifier \<open>u\<close>.\<close>

definition useInitialFormValuesLocal ::
  "'r env \<Rightarrow> 'r sources \<Rightarrow> string \<Rightarrow> string \<Rightarrow> effect list \<Rightarrow> form_values" where
  "useInitialFormValuesLocal e src uuid u effs =
     fold (run_effect e src uuid) effs (default_form_values u)"

subsection \<open>usePatientUuidMap\<close>

text \<open>The first effect; \<open>m\<close> is the state of the render.  A rejected lookup never reaches
  the \<^verbatim>\<open>then\<close> callback.\<close>

definition uuid_map_effect ::
  "'r helpers \<Rightarrow> 'r sources \<Rightarrow> string \<Rightarrow> dictionary \<Rightarrow> dictionary \<Rightarrow> dictionary event list"
  where
  "uuid_map_effect h src uuid fallback m =
     (case patientToEdit src of
        Some p \<Rightarrow> [SetState (m ++ getPatientUuidMapFromFhirPatient h p)]
      | None \<Rightarrow>
          if \<not> isLoadingPatientToEdit src \<and> uuid \<noteq> '''' then
            ReadQueue #
            (case getPatientRegistration uuid (queue src) of
               Inl e \<Rightarrow> [Throw e]
             | Inr None \<Rightarrow> [SetState fallback]
             | Inr (Some registration) \<Rightarrow>
                 [SetState (case initialAddressFieldValues registration of
                              None \<Rightarrow> fallback
                            | Some a \<Rightarrow> a)])
          else [])"

definition getPatientAttributeUuidMapForPatient :: "person_attribute list \<Rightarrow> dictionary" where
  "getPatientAttributeUuidMapForPatient attrs =
     fold (\<lambda>attribute attributeUuidMap.
             attributeUuidMap(''attribute.'' @ attributeTypeUuid (attributeType attribute)
                                \<mapsto> attributeUuid attribute))
       attrs Map.empty"

definition uuid_map_attributes_effect :: "'r sources \<Rightarrow> dictionary \<Rightarrow> dictionary" where
  "uuid_map_attributes_effect src prevPatientUuidMap =
     (case attributeResults src of
        None \<Rightarrow> prevPatientUuidMap
      | Some attrs \<Rightarrow> prevPatientUuidMap ++ getPatientAttributeUuidMapForPatient attrs)"

subsection \<open>useMpiInitialFormValues and the component\<close>

text \<open>The effect of the hook; \<open>mpiPatient\<close> is \<^verbatim>\<open>mpiPatient?.data\<close> and \<open>s\<close> the state of
  the render.\<close>

definition mpi_effect ::
  "'r helpers \<Rightarrow> config \<Rightarrow> 'r fhir_patient option \<Rightarrow> form_values \<Rightarrow> form_values event list"
  where
  "mpi_effect h cfg mpiPatient s =
     (case mpiPatient of
        None \<Rightarrow> []
      | Some p \<Rightarrow>
          (case identifiers_of p of
             None \<Rightarrow> []
           | Some ids \<Rightarrow>
               [SetState
                  ((spreadFormValuesFromFhirPatient h p s)
                     \<lparr> address := getAddressFieldValuesFromFhirPatient h p,
                       identifiers := getIdentifierFieldValuesFromFhirPatient h p,
                       attributes :=
                         Some (getPhonePersonAttributeValueFromFhirPatient h p
                                 (phonePersonAttributeUuid cfg)) \<rparr>)]))"

text \<open>The state the hook returns after its effect has run \<open>n\<close> times; \<open>u\<close> is the
  identifier generated by the call of \<^verbatim>\<open>v4()\<close> in this hook.\<close>

fun useMpiInitialFormValues ::
  "'r helpers \<Rightarrow> config \<Rightarrow> 'r fhir_patient option \<Rightarrow> string \<Rightarrow> nat \<Rightarrow> form_values" where
  "useMpiInitialFormValues h cfg mpiPatient u 0 = default_form_values u"
| "useMpiInitialFormValues h cfg mpiPatient u (Suc n) =
     (let s = useMpiInitialFormValues h cfg mpiPatient u n
      in state_after s (mpi_effect h cfg mpiPatient s))"

text \<open>The first effect of \<^verbatim>\<open>PatientRegistration\<close>.  Its guard tests a value for
  truthiness: \<open>None\<close> stands for a falsy value, \<open>Some\<close> for an object.  The effect runs
  after mounting and after every render in which \<^verbatim>\<open>initialMPIFormValues\<close> is a
  different object.\<close>

definition mpi_sync_effect :: "form_values option \<Rightarrow> form_values event list" where
  "mpi_sync_effect initialMPIFormValues =
     (case initialMPIFormValues of
        Some v \<Rightarrow> [SetState v]
      | None \<Rightarrow> [])"

subsection \<open>Sample inputs\<close>

text \<open>Concrete values at which the theorems below are instantiated: sources with
  nothing to report, a date library with fixed answers (a clock 441 months after the
  start of 1990, times read off the digits of the date string), helpers that contribute
  nothing, and a configuration.\<close>

definition no_data :: "unit sources" where
  "no_data =
     \<lparr> patientToEdit = None,
       isLoadingPatientToEdit = False,
       deathInfo = None,
       isLoadingDeathInfo = False,
       attributeResults = None,
       isLoadingAttributes = False,
       identifierResults = None,
       isLoadingIdentifiers = False,
       relationshipData = None,
       isLoadingRelationships = False,
       encounterResults = None,
       queue = [] \<rparr>"

definition sample_time :: "string \<Rightarrow> int" where
  "sample_time s = foldl (\<lambda>n c. 10 * n + (of_char c - 48)) 0 (filter is_digit s)"

definition sample_lib :: date_lib where
  "sample_lib =
     \<lparr> dateParse = sample_time,
       formatTime = (\<lambda>d. ''10:30''),
       hourOf = (\<lambda>d. 22),
       monthsSince = (\<lambda>s. 441) \<rparr>"

definition sample_helpers :: "unit helpers" where
  "sample_helpers =
     \<lparr> spreadFormValuesFromFhirPatient = (\<lambda>p s. s),
       getAddressFieldValuesFromFhirPatient = (\<lambda>p. Map.empty),
       spreadPhonePersonAttributeValueFromFhirPatient = (\<lambda>p a s. s),
       getPhonePersonAttributeValueFromFhirPatient = (\<lambda>p a. Map.empty),
       getIdentifierFieldValuesFromFhirPatient = (\<lambda>p. Map.empty),
       getPatientUuidMapFromFhirPatient = (\<lambda>p. Map.empty) \<rparr>"

definition sample_cfg :: config where
  "sample_cfg =
     \<lparr> freeTextFieldConceptUuid = ''free-text-concept'',
       phonePersonAttributeUuid = ''phone-attribute'',
       encounterTypeUuid = ''registration-encounter'' \<rparr>"

definition no_words :: "string \<Rightarrow> string list" where
  "no_words s = []"

definition sample_env :: "unit env" where
  "sample_env =
     \<lparr> env_lib = sample_lib,
       env_helpers = sample_helpers,
       env_words = no_words,
       env_cfg = sample_cfg \<rparr>"

definition sample_patient :: "string \<Rightarrow> unit fhir_patient" where
  "sample_patient bd = \<lparr> birthDate = Some bd, identifiers_of = None, resource = () \<rparr>"

text \<open>Sources in which the death information, the attributes, the identifiers and the
  relationships have all resolved.\<close>

definition resolved_sources :: "unit sources" where
  "resolved_sources =
     no_data
       \<lparr> deathInfo := Some \<lparr> causeOfDeath = None, dead = True,
                             deathDateStr = Some ''2024-05-01'',
                             causeOfDeathNonCoded = Some ''snake bite'' \<rparr>,
         attributeResults :=
           Some [\<lparr> attributeUuid = ''attribute-1'',
                   attributeType = \<lparr> attributeTypeUuid = ''type-civil-status'',
                                     format = ''org.openmrs.Concept'' \<rparr>,
                   attributeValue = Resource (Some ''concept-married'') \<rparr>],
         identifierResults :=
           Some [\<lparr> piUuid = ''identifier-1'', piIdentifier = ''100GEJ'',
                   piIdentifierType = \<lparr> typeUuid = ''type-national-id'', typeRequired = True,
                                        typeName = ''National ID'' \<rparr>,
                   piPreferred = True \<rparr>],
         relationshipData := Some [Relationship ''sibling''] \<rparr>"

text \<open>Two encounters of a patient, the second one the more recent.\<close>

definition older_encounter :: encounter where
  "older_encounter =
     \<lparr> encounterDatetime = ''2023-01-15'',
       encounterObs = [\<lparr> concept = ''concept-weight'', obsValue = Num 70 \<rparr>] \<rparr>"

definition newer_encounter :: encounter where
  "newer_encounter =
     \<lparr> encounterDatetime = ''2024-05-01'',
       encounterObs = [\<lparr> concept = ''concept-civil-status'',
                         obsValue = Resource (Some ''concept-married'') \<rparr>,
                       \<lparr> concept = ''concept-occupation'', obsValue = Str ''farmer'' \<rparr>] \<rparr>"

text \<open>Two drafts of the queue: one without form values, one of the patient
  \<^verbatim>\<open>p1\<close>.\<close>

definition formless_draft :: patient_registration where
  "formless_draft = \<lparr> formValues = None, initialAddressFieldValues = None \<rparr>"

definition matching_draft :: patient_registration where
  "matching_draft =
     \<lparr> formValues = Some (default_form_values ''p1''),
       initialAddressFieldValues = Some [''country'' \<mapsto> ''Kenya''] \<rparr>"

text \<open>The record made from the identifier of \<open>resolved_sources\<close>.\<close>

definition sample_identifier_record :: identifier_record where
  "sample_identifier_record =
     \<lparr> identifierUuid = ''identifier-1'', preferred = True,
       initialValue = ''100GEJ'', identifierValue = ''100GEJ'',
       identifierTypeUuid = ''type-national-id'', identifierName = ''National ID'',
       required = True, selectedSource = None, autoGeneration = False \<rparr>"

section \<open>Properties\<close>

subsection \<open>Auxiliary facts\<close>

lemmas char_defs =
  ascii_word_char_def is_letter_def is_lower_def is_upper_def is_digit_def
  upper_letters_def lower_letters_def toLowerCase_def capitalize_def upperFirst_def
  lower_char_def upper_char_def

lemma split_no_separator: "c \<notin> set s \<Longrightarrow> split c s = [s]"
  by (induction s) auto

lemma full_date_has_hyphen:
  assumes "full_date s"
  shows "CHR ''-'' \<in> set s"
proof -
  from assms have "4 < length s" and "s ! 4 = CHR ''-''"
    by (simp_all add: full_date_def)
  then show ?thesis by (metis nth_mem)
qed

text \<open>What the queue lookup returns.\<close>

lemma lookup_finds_form_values:
  "getPatientRegistration uuid items = Inr (Some r) \<Longrightarrow>
     \<exists>fv. formValues r = Some fv \<and> patientUuid fv = uuid \<and> r \<in> set items"
  by (induction items) (auto split: option.splits if_splits)

lemma lookup_without_match:
  "\<forall>item \<in> set items. \<forall>fv. formValues item = Some fv \<longrightarrow> patientUuid fv \<noteq> uuid \<Longrightarrow>
     getPatientRegistration uuid items = Inr None \<or>
     getPatientRegistration uuid items = Inl TypeError"
  by (induction items) (auto split: option.splits)

lemma lookup_none:
  "\<forall>item \<in> set items. \<exists>fv. formValues item = Some fv \<and> patientUuid fv \<noteq> uuid \<Longrightarrow>
     getPatientRegistration uuid items = Inr None"
  by (induction items) (auto split: option.splits)

lemma lookup_some:
  "\<forall>item \<in> set pre. \<exists>fv. formValues item = Some fv \<and> patientUuid fv \<noteq> uuid \<Longrightarrow>
   formValues r = Some fv \<Longrightarrow> patientUuid fv = uuid \<Longrightarrow>
     getPatientRegistration uuid (pre @ r # post) = Inr (Some r)"
  by (induction pre) (auto split: option.splits)

text \<open>The branch of the first effect that logs the diagnostic is never taken: a
  registration that the lookup returns has form values.\<close>

lemma diagnostic_unreachable:
  "ConsoleError msg \<notin> set (core_record_effect lib h cfg src uuid s)"
  by (auto simp add: core_record_effect_def Let_def split: option.splits sum.splits
        dest: lookup_finds_form_values)

text \<open>An object filled key by key: the last entry written under a key is the one read.\<close>

lemma fold_update_lookup:
  "fold (\<lambda>x m. m(kf x \<mapsto> vf x)) xs m0 k =
     (case find (\<lambda>x. kf x = k) (rev xs) of Some x \<Rightarrow> Some (vf x) | None \<Rightarrow> m0 k)"
  by (induction xs rule: rev_induct) simp_all

text \<open>The stable sort keeps the elements, and with a comparator that subtracts keys the
  first element has the greatest key.\<close>

lemma set_insert_sorted: "set (insert_sorted cmp x ys) = insert x (set ys)"
  by (induction ys) auto

lemma set_sort_with: "set (sort_with cmp xs) = set xs"
  by (induction xs) (simp_all add: sort_with_def set_insert_sorted)

lemma insert_sorted_hd:
  assumes "\<forall>y \<in> set ys. key y \<le> key (hd ys)"
      and "\<And>a b. cmp a b = key b - key a"
  shows "\<forall>y \<in> set (insert_sorted cmp x ys).
           key y \<le> (key (hd (insert_sorted cmp x ys)) :: int)"
proof (cases ys)
  case Nil
  then show ?thesis by simp
next
  case (Cons y0 ys')
  then show ?thesis using assms by (auto simp add: set_insert_sorted)
qed

lemma sort_with_hd:
  assumes "\<And>a b. cmp a b = key b - key a"
  shows "\<forall>y \<in> set (sort_with cmp xs). key y \<le> (key (hd (sort_with cmp xs)) :: int)"
proof (induction xs)
  case Nil
  then show ?case by (simp add: sort_with_def)
next
  case (Cons x xs)
  have "sort_with cmp (x # xs) = insert_sorted cmp x (sort_with cmp xs)"
    by (simp add: sort_with_def)
  with insert_sorted_hd[OF Cons assms] show ?case by simp
qed

lemma latest_encounter_first:
  assumes "results \<noteq> []"
  obtains e es where "sort_with (latestFirstEncounter lib) results = e # es"
    and "e \<in> set results"
    and "\<forall>e' \<in> set results.
           dateParse lib (encounterDatetime e') \<le> dateParse lib (encounterDatetime e)"
proof -
  let ?xs = "sort_with (latestFirstEncounter lib) results"
  have s: "set ?xs = set results" by (rule set_sort_with)
  with assms have "?xs \<noteq> []" by auto
  then obtain e es where c: "?xs = e # es" by (cases ?xs) auto
  have "\<forall>y \<in> set ?xs.
          dateParse lib (encounterDatetime y) \<le> dateParse lib (encounterDatetime (hd ?xs))"
    by (rule sort_with_hd) (simp add: latestFirstEncounter_def)
  with c s have "\<forall>e' \<in> set results.
      dateParse lib (encounterDatetime e') \<le> dateParse lib (encounterDatetime e)"
    by simp
  moreover from c s have "e \<in> set results" by auto
  ultimately show ?thesis using c that by blast
qed

text \<open>The compounder sees its words in lower case only.\<close>

lemma compound_lower:
  "map toLowerCase ws = map toLowerCase ws' \<Longrightarrow> compound i r ws = compound i r ws'"
proof (induction ws arbitrary: ws' i r)
  case Nil
  then show ?case by simp
next
  case (Cons w ws)
  then obtain w' ws'' where "ws' = w' # ws''" by (cases ws') auto
  with Cons show ?case by (simp add: Let_def)
qed

lemma camelCase_National_ID: "camelCase w ''National ID'' = ''nationalId''"
  by (simp add: camelCase_def words_def asciiWords_def char_defs)

lemma camelCase_National_Id: "camelCase w ''National Id'' = ''nationalId''"
  by (simp add: camelCase_def words_def asciiWords_def char_defs)

lemma camelCase_Nationalid: "camelCase w ''Nationalid'' = ''nationalid''"
  by (simp add: camelCase_def words_def asciiWords_def char_defs)

text \<open>The merging effects commute: they write different fields.\<close>

lemma merges_commute:
  "x \<noteq> CoreRecord \<Longrightarrow> y \<noteq> CoreRecord \<Longrightarrow>
     run_effect e src uuid x (run_effect e src uuid y s) =
     run_effect e src uuid y (run_effect e src uuid x s)"
  by (cases x; cases y)
     (simp_all add: death_info_effect_def relationships_effect_def identifiers_effect_def
        attributes_effect_def encounters_effect_def Let_def split: option.splits)

text \<open>Without a core record and without a matching draft the first effect never calls
  the setter.\<close>

lemma core_record_effect_no_draft:
  assumes "patientToEdit src = None"
      and "\<forall>item \<in> set (queue src). \<forall>fv. formValues item = Some fv \<longrightarrow> patientUuid fv \<noteq> uuid"
  shows "state_after s (core_record_effect lib h cfg src uuid s) = s"
  using assms(1) lookup_without_match[OF assms(2)]
  by (auto simp add: core_record_effect_def)

lemma default_kept:
  assumes "patientToEdit src = None"
      and "\<forall>item \<in> set (queue src). \<forall>fv. formValues item = Some fv \<longrightarrow> patientUuid fv \<noteq> uuid"
      and "\<forall>di. deathInfo src = Some di \<longrightarrow> \<not> dead di"
      and "relationshipData src = None \<or> relationshipData src = Some []"
      and "identifierResults src = None \<or> identifierResults src = Some []"
      and "attributeResults src = None"
  shows "run_effect e src uuid eff (default_form_values u) = default_form_values u"
proof (cases eff)
  case CoreRecord
  then show ?thesis using core_record_effect_no_draft[OF assms(1,2)] by simp
next
  case DeathInfo
  then show ?thesis using assms(3)
    by (auto simp add: death_info_effect_def split: option.splits)
next
  case Relationships
  then show ?thesis using assms(4)
    by (auto simp add: relationships_effect_def default_form_values_def)
next
  case Identifiers
  then show ?thesis using assms(5)
    by (auto simp add: identifiers_effect_def useInitialPatientIdentifiers_def
          default_form_values_def)
next
  case Attributes
  then show ?thesis using assms(6) by (simp add: attributes_effect_def)
next
  case Encounters
  then show ?thesis using assms(1) by (simp add: encounters_effect_def)
qed

lemma mpi_state_without_record:
  "useMpiInitialFormValues h cfg None u n = default_form_values u"
  by (induction n) (simp_all add: mpi_effect_def Let_def)

lemma sample_times:
  "sample_time ''2023-01-15'' = 20230115" "sample_time ''2024-05-01'' = 20240501"
  by (simp_all add: sample_time_def is_digit_def)

subsection \<open>The claims\<close>

text \<open>
  C1.  No core record, loading finished, an identifier supplied, and the queue holds a
  draft without form values.  The first effect reads the queue, and the predicate of
  \<^verbatim>\<open>find\<close> raises a \<open>TypeError\<close> on that draft: the promise rejects, no
  diagnostic is logged and the setter is not called.
\<close>

theorem lookup_of_draft_without_form_values_throws:
  "core_record_effect lib h cfg
     (no_data \<lparr> queue := [\<lparr> formValues = None, initialAddressFieldValues = None \<rparr>] \<rparr>)
     ''p1'' s
   = [ReadQueue, Throw TypeError]"
  by (simp add: core_record_effect_def no_data_def)

text \<open>
  C2.  With a core record whose stored birth date has no hyphen (year-only precision,
  such as \<^verbatim>\<open>1990\<close>), the first effect sets \<open>birthdateEstimated\<close>, sets
  \<open>monthsEstimated\<close> to 0 and sets \<open>yearsEstimated\<close> to the floor of a twelfth of the
  months that dayjs counts between the stored date and now.  With a stored date of the
  form year-month-day (such as \<^verbatim>\<open>1990-06-15\<close>) it clears \<open>birthdateEstimated\<close> and
  sets both estimates to 0.
\<close>

theorem birthdate_precision_estimates:
  assumes "patientToEdit src = Some p" and "birthDate p = Some bd"
  shows "(CHR ''-'' \<notin> set bd \<longrightarrow>
           birthdateEstimated (state_after s (core_record_effect lib h cfg src uuid s)) \<and>
           monthsEstimated (state_after s (core_record_effect lib h cfg src uuid s)) = 0 \<and>
           yearsEstimated (state_after s (core_record_effect lib h cfg src uuid s))
             = monthsSince lib bd div 12) \<and>
         (full_date bd \<longrightarrow>
           \<not> birthdateEstimated (state_after s (core_record_effect lib h cfg src uuid s)) \<and>
           yearsEstimated (state_after s (core_record_effect lib h cfg src uuid s)) = 0 \<and>
           monthsEstimated (state_after s (core_record_effect lib h cfg src uuid s)) = 0)"
proof (intro conjI impI)
  assume n: "CHR ''-'' \<notin> set bd"
  then have nf: "\<not> full_date bd" using full_date_has_hyphen by blast
  from n have sp: "split CHR ''-'' bd = [bd]" by (rule split_no_separator)
  show "birthdateEstimated (state_after s (core_record_effect lib h cfg src uuid s))"
    using assms nf by (simp add: core_record_effect_def Let_def)
  show "monthsEstimated (state_after s (core_record_effect lib h cfg src uuid s)) = 0"
    using assms nf sp by (simp add: core_record_effect_def Let_def)
  show "yearsEstimated (state_after s (core_record_effect lib h cfg src uuid s))
          = monthsSince lib bd div 12"
    using assms nf by (simp add: core_record_effect_def Let_def)
next
  assume f: "full_date bd"
  show "\<not> birthdateEstimated (state_after s (core_record_effect lib h cfg src uuid s))"
    using assms f by (simp add: core_record_effect_def Let_def)
  show "yearsEstimated (state_after s (core_record_effect lib h cfg src uuid s)) = 0"
    using assms f by (simp add: core_record_effect_def Let_def)
  show "monthsEstimated (state_after s (core_record_effect lib h cfg src uuid s)) = 0"
    using assms f by (simp add: core_record_effect_def Let_def)
qed

text \<open>The stored dates \<^verbatim>\<open>1990\<close> and \<^verbatim>\<open>1990-06-15\<close>, 441 months after the start of
  1990.\<close>

theorem birthdate_precision_estimates_witness:
  "birthdateEstimated
     (state_after (default_form_values ''u'')
        (core_record_effect sample_lib sample_helpers sample_cfg
           (no_data \<lparr> patientToEdit := Some (sample_patient ''1990'') \<rparr>) ''p1''
           (default_form_values ''u''))) \<and>
   monthsEstimated
     (state_after (default_form_values ''u'')
        (core_record_effect sample_lib sample_helpers sample_cfg
           (no_data \<lparr> patientToEdit := Some (sample_patient ''1990'') \<rparr>) ''p1''
           (default_form_values ''u''))) = 0 \<and>
   yearsEstimated
     (state_after (default_form_values ''u'')
        (core_record_effect sample_lib sample_helpers sample_cfg
           (no_data \<lparr> patientToEdit := Some (sample_patient ''1990'') \<rparr>) ''p1''
           (default_form_values ''u''))) = 36 \<and>
   \<not> birthdateEstimated
     (state_after (default_form_values ''u'')
        (core_record_effect sample_lib sample_helpers sample_cfg
           (no_data \<lparr> patientToEdit := Some (sample_patient ''1990-06-15'') \<rparr>) ''p1''
           (default_form_values ''u''))) \<and>
   yearsEstimated
     (state_after (default_form_values ''u'')
        (core_record_effect sample_lib sample_helpers sample_cfg
           (no_data \<lparr> patientToEdit := Some (sample_patient ''1990-06-15'') \<rparr>) ''p1''
           (default_form_values ''u''))) = 0 \<and>
   monthsEstimated
     (state_after (default_form_values ''u'')
        (core_record_effect sample_lib sample_helpers sample_cfg
           (no_data \<lparr> patientToEdit := Some (sample_patient ''1990-06-15'') \<rparr>) ''p1''
           (default_form_values ''u''))) = 0"
proof -
  have year_only: "CHR ''-'' \<notin> set ''1990''" by simp
  have full: "full_date ''1990-06-15''" by (simp add: full_date_def is_digit_def)
  have months: "monthsSince sample_lib ''1990'' div 12 = 36" by (simp add: sample_lib_def)
  show ?thesis
    using year_only full months
      birthdate_precision_estimates
        [of "no_data \<lparr> patientToEdit := Some (sample_patient ''1990'') \<rparr>"
            "sample_patient ''1990''" "''1990''" "default_form_values ''u''"
            sample_lib sample_helpers sample_cfg "''p1''"]
      birthdate_precision_estimates
        [of "no_data \<lparr> patientToEdit := Some (sample_patient ''1990-06-15'') \<rparr>"
            "sample_patient ''1990-06-15''" "''1990-06-15''" "default_form_values ''u''"
            sample_lib sample_helpers sample_cfg "''p1''"]
    by (simp add: no_data_def sample_patient_def)
qed

text \<open>
  C3.  A person marked dead, with the uuid of a coded cause and the empty string as
  free-text cause: the merge stores the empty string in \<open>nonCodedCauseOfDeath\<close>, not
  \<^verbatim>\<open>null\<close>.
\<close>

theorem death_info_merge_counterexample:
  "deathCause
     (death_info_effect sample_lib sample_cfg
        (no_data \<lparr> deathInfo := Some \<lparr> causeOfDeath =
                        Some \<lparr> resourceUuid = ''concept-malaria'', display = ''Malaria'' \<rparr>,
                      dead = True, deathDateStr = Some ''2024-05-01'',
                      causeOfDeathNonCoded = Some '''' \<rparr> \<rparr>)
        (default_form_values ''u'')) = Some ''concept-malaria'' \<and>
   nonCodedCauseOfDeath
     (death_info_effect sample_lib sample_cfg
        (no_data \<lparr> deathInfo := Some \<lparr> causeOfDeath =
                        Some \<lparr> resourceUuid = ''concept-malaria'', display = ''Malaria'' \<rparr>,
                      dead = True, deathDateStr = Some ''2024-05-01'',
                      causeOfDeathNonCoded = Some '''' \<rparr> \<rparr>)
        (default_form_values ''u'')) = Some '''' \<and>
   nonCodedCauseOfDeath
     (death_info_effect sample_lib sample_cfg
        (no_data \<lparr> deathInfo := Some \<lparr> causeOfDeath =
                        Some \<lparr> resourceUuid = ''concept-malaria'', display = ''Malaria'' \<rparr>,
                      dead = True, deathDateStr = Some ''2024-05-01'',
                      causeOfDeathNonCoded = Some '''' \<rparr> \<rparr>)
        (default_form_values ''u'')) \<noteq> None"
  by (simp add: death_info_effect_def no_data_def Let_def)

text \<open>
  C3, as amended.  When the death information has resolved for a person marked dead:
  with a non-empty free-text cause, \<open>deathCause\<close> is the configured free-text concept
  and \<open>nonCodedCauseOfDeath\<close> is the text; with a coded cause and a free-text cause that
  is \<^verbatim>\<open>null\<close> or empty, \<open>deathCause\<close> is the uuid of the coded concept and
  \<open>nonCodedCauseOfDeath\<close> is the stored free-text cause as it is (\<^verbatim>\<open>null\<close> when it is
  \<^verbatim>\<open>null\<close>, the empty string when it is empty).  For a person not marked dead the
  effect leaves the state as it is.
\<close>

theorem death_info_merge:
  "(deathInfo src = Some di \<and> \<not> isLoadingDeathInfo src \<and> dead di \<longrightarrow>
      (\<forall>t. causeOfDeathNonCoded di = Some t \<and> t \<noteq> '''' \<longrightarrow>
         deathCause (death_info_effect lib cfg src s) = Some (freeTextFieldConceptUuid cfg) \<and>
         nonCodedCauseOfDeath (death_info_effect lib cfg src s) = Some t) \<and>
      (\<forall>c. causeOfDeath di = Some c \<and>
           (causeOfDeathNonCoded di = None \<or> causeOfDeathNonCoded di = Some '''') \<longrightarrow>
         deathCause (death_info_effect lib cfg src s) = Some (resourceUuid c) \<and>
         nonCodedCauseOfDeath (death_info_effect lib cfg src s) = causeOfDeathNonCoded di) \<and>
      (\<forall>c. causeOfDeath di = Some c \<and> causeOfDeathNonCoded di = None \<longrightarrow>
         nonCodedCauseOfDeath (death_info_effect lib cfg src s) = None) \<and>
      isDead (death_info_effect lib cfg src s)) \<and>
   ((\<forall>di. deathInfo src = Some di \<longrightarrow> \<not> dead di) \<longrightarrow> death_info_effect lib cfg src s = s)"
  by (auto simp add: death_info_effect_def Let_def split: option.splits)

text \<open>A death with a free-text cause, a death with a coded cause only, a death with a
  coded cause and an empty free-text cause, and a living person.\<close>

theorem death_info_merge_witness:
  "deathCause
     (death_info_effect sample_lib sample_cfg
        (no_data \<lparr> deathInfo := Some \<lparr> causeOfDeath = None, dead = True,
                      deathDateStr = Some ''2024-05-01'',
                      causeOfDeathNonCoded = Some ''snake bite'' \<rparr> \<rparr>)
        (default_form_values ''u'')) = Some ''free-text-concept'' \<and>
   nonCodedCauseOfDeath
     (death_info_effect sample_lib sample_cfg
        (no_data \<lparr> deathInfo := Some \<lparr> causeOfDeath = None, dead = True,
                      deathDateStr = Some ''2024-05-01'',
                      causeOfDeathNonCoded = Some ''snake bite'' \<rparr> \<rparr>)
        (default_form_values ''u'')) = Some ''snake bite'' \<and>
   deathCause
     (death_info_effect sample_lib sample_cfg
        (no_data \<lparr> deathInfo := Some \<lparr> causeOfDeath =
                        Some \<lparr> resourceUuid = ''concept-malaria'', display = ''Malaria'' \<rparr>,
                      dead = True, deathDateStr = Some ''2024-05-01'',
                      causeOfDeathNonCoded = None \<rparr> \<rparr>)
        (default_form_values ''u'')) = Some ''concept-malaria'' \<and>
   nonCodedCauseOfDeath
     (death_info_effect sample_lib sample_cfg
        (no_data \<lparr> deathInfo := Some \<lparr> causeOfDeath =
                        Some \<lparr> resourceUuid = ''concept-malaria'', display = ''Malaria'' \<rparr>,
                      dead = True, deathDateStr = Some ''2024-05-01'',
                      causeOfDeathNonCoded = None \<rparr> \<rparr>)
        (default_form_values ''u'')) = None \<and>
   deathCause
     (death_info_effect sample_lib sample_cfg
        (no_data \<lparr> deathInfo := Some \<lparr> causeOfDeath =
                        Some \<lparr> resourceUuid = ''concept-malaria'', display = ''Malaria'' \<rparr>,
                      dead = True, deathDateStr = Some ''2024-05-01'',
                      causeOfDeathNonCoded = Some '''' \<rparr> \<rparr>)
        (default_form_values ''u'')) = Some ''concept-malaria'' \<and>
   nonCodedCauseOfDeath
     (death_info_effect sample_lib sample_cfg
        (no_data \<lparr> deathInfo := Some \<lparr> causeOfDeath =
                        Some \<lparr> resourceUuid = ''concept-malaria'', display = ''Malaria'' \<rparr>,
                      dead = True, deathDateStr = Some ''2024-05-01'',
                      causeOfDeathNonCoded = Some '''' \<rparr> \<rparr>)
        (default_form_values ''u'')) = Some '''' \<and>
   death_info_effect sample_lib sample_cfg
     (no_data \<lparr> deathInfo := Some \<lparr> causeOfDeath = None, dead = False,
                   deathDateStr = None, causeOfDeathNonCoded = None \<rparr> \<rparr>)
     (default_form_values ''u'') = default_form_values ''u''"
  using
    death_info_merge
      [of "no_data \<lparr> deathInfo := Some \<lparr> causeOfDeath = None, dead = True,
                      deathDateStr = Some ''2024-05-01'',
                      causeOfDeathNonCoded = Some ''snake bite'' \<rparr> \<rparr>"
          "\<lparr> causeOfDeath = None, dead = True, deathDateStr = Some ''2024-05-01'',
             causeOfDeathNonCoded = Some ''snake bite'' \<rparr>"
          sample_lib sample_cfg "default_form_values ''u''"]
    death_info_merge
      [of "no_data \<lparr> deathInfo := Some \<lparr> causeOfDeath =
                        Some \<lparr> resourceUuid = ''concept-malaria'', display = ''Malaria'' \<rparr>,
                      dead = True, deathDateStr = Some ''2024-05-01'',
                      causeOfDeathNonCoded = None \<rparr> \<rparr>"
          "\<lparr> causeOfDeath = Some \<lparr> resourceUuid = ''concept-malaria'', display = ''Malaria'' \<rparr>,
             dead = True, deathDateStr = Some ''2024-05-01'', causeOfDeathNonCoded = None \<rparr>"
          sample_lib sample_cfg "default_form_values ''u''"]
    death_info_merge
      [of "no_data \<lparr> deathInfo := Some \<lparr> causeOfDeath =
                        Some \<lparr> resourceUuid = ''concept-malaria'', display = ''Malaria'' \<rparr>,
                      dead = True, deathDateStr = Some ''2024-05-01'',
                      causeOfDeathNonCoded = Some '''' \<rparr> \<rparr>"
          "\<lparr> causeOfDeath = Some \<lparr> resourceUuid = ''concept-malaria'', display = ''Malaria'' \<rparr>,
             dead = True, deathDateStr = Some ''2024-05-01'', causeOfDeathNonCoded = Some '''' \<rparr>"
          sample_lib sample_cfg "default_form_values ''u''"]
    death_info_merge
      [of "no_data \<lparr> deathInfo := Some \<lparr> causeOfDeath = None, dead = False,
                   deathDateStr = None, causeOfDeathNonCoded = None \<rparr> \<rparr>"
          "\<lparr> causeOfDeath = None, dead = False, deathDateStr = None,
             causeOfDeathNonCoded = None \<rparr>"
          sample_lib sample_cfg "default_form_values ''u''"]
  by (simp add: no_data_def sample_cfg_def)

text \<open>
  C4.  No core record and an empty queue, but the other sources have resolved: the
  merge of the death information marks the person dead, the merge of the attributes
  stores an attribute map, the merge of the identifiers stores an identifier and the merge
  of the relationships stores a relationship.  The state is no longer the default state.
\<close>

theorem default_state_counterexample:
  "patientToEdit resolved_sources = None \<and> queue resolved_sources = [] \<and>
   isDead (useInitialFormValuesLocal sample_env resolved_sources ''p1'' ''u'' [DeathInfo]) \<and>
   attributes (useInitialFormValuesLocal sample_env resolved_sources ''p1'' ''u'' [Attributes])
     \<noteq> None \<and>
   identifiers (useInitialFormValuesLocal sample_env resolved_sources ''p1'' ''u'' [Identifiers])
     ''nationalId'' = Some sample_identifier_record \<and>
   relationships
     (useInitialFormValuesLocal sample_env resolved_sources ''p1'' ''u'' [Relationships])
     = [Relationship ''sibling''] \<and>
   useInitialFormValuesLocal sample_env resolved_sources ''p1'' ''u'' [DeathInfo]
     \<noteq> default_form_values ''u'' \<and>
   useInitialFormValuesLocal sample_env resolved_sources ''p1'' ''u'' [Attributes]
     \<noteq> default_form_values ''u'' \<and>
   useInitialFormValuesLocal sample_env resolved_sources ''p1'' ''u'' [Identifiers]
     \<noteq> default_form_values ''u'' \<and>
   useInitialFormValuesLocal sample_env resolved_sources ''p1'' ''u'' [Relationships]
     \<noteq> default_form_values ''u''"
proof -
  let ?run = "useInitialFormValuesLocal sample_env resolved_sources ''p1'' ''u''"
  have src: "patientToEdit resolved_sources = None \<and> queue resolved_sources = []"
    by (simp add: resolved_sources_def no_data_def)
  have d: "isDead (?run [DeathInfo])"
    by (simp add: useInitialFormValuesLocal_def death_info_effect_def resolved_sources_def
          no_data_def Let_def)
  have a: "attributes (?run [Attributes]) \<noteq> None"
    by (simp add: useInitialFormValuesLocal_def attributes_effect_def resolved_sources_def
          no_data_def)
  have i: "identifiers (?run [Identifiers]) ''nationalId'' = Some sample_identifier_record"
    by (simp add: useInitialFormValuesLocal_def identifiers_effect_def
          useInitialPatientIdentifiers_def resolved_sources_def no_data_def sample_env_def
          camelCase_National_ID identifier_entry_def sample_identifier_record_def)
  have r: "relationships (?run [Relationships]) = [Relationship ''sibling'']"
    by (simp add: useInitialFormValuesLocal_def relationships_effect_def resolved_sources_def
          no_data_def)
  have d': "?run [DeathInfo] \<noteq> default_form_values ''u''"
  proof
    assume "?run [DeathInfo] = default_form_values ''u''"
    with d have "isDead (default_form_values ''u'')" by simp
    then show False by (simp add: default_form_values_def)
  qed
  have a': "?run [Attributes] \<noteq> default_form_values ''u''"
  proof
    assume "?run [Attributes] = default_form_values ''u''"
    with a have "attributes (default_form_values ''u'') \<noteq> None" by simp
    then show False by (simp add: default_form_values_def)
  qed
  have i': "?run [Identifiers] \<noteq> default_form_values ''u''"
  proof
    assume "?run [Identifiers] = default_form_values ''u''"
    with i have "identifiers (default_form_values ''u'') ''nationalId''
                   = Some sample_identifier_record" by simp
    then show False by (simp add: default_form_values_def)
  qed
  have r': "?run [Relationships] \<noteq> default_form_values ''u''"
  proof
    assume "?run [Relationships] = default_form_values ''u''"
    with r have "relationships (default_form_values ''u'') = [Relationship ''sibling'']"
      by simp
    then show False by (simp add: default_form_values_def)
  qed
  from src d a i r d' a' i' r' show ?thesis by simp
qed

text \<open>
  C4, as amended.  There is no core record, no draft in the queue carries the form
  values of the requested patient, and the other sources contribute nothing (no person
  marked dead, no relationships, no identifiers, no attribute list).  Then the state of
  the hook is the fixed default state after any sequence of its effects: none of them
  changes it.
\<close>

theorem default_state_kept:
  assumes "patientToEdit src = None"
      and "\<forall>item \<in> set (queue src). \<forall>fv. formValues item = Some fv \<longrightarrow> patientUuid fv \<noteq> uuid"
      and "\<forall>di. deathInfo src = Some di \<longrightarrow> \<not> dead di"
      and "relationshipData src = None \<or> relationshipData src = Some []"
      and "identifierResults src = None \<or> identifierResults src = Some []"
      and "attributeResults src = None"
  shows "useInitialFormValuesLocal e src uuid u effs = default_form_values u"
  unfolding useInitialFormValuesLocal_def
  by (induction effs) (simp_all add: default_kept[OF assms])

text \<open>A queue with the draft of another patient, and every effect run in turn.\<close>

theorem default_state_kept_witness:
  "useInitialFormValuesLocal sample_env
     (no_data \<lparr> queue := [\<lparr> formValues = Some (default_form_values ''p2''),
                            initialAddressFieldValues = None \<rparr>] \<rparr>)
     ''p1'' ''u''
     [CoreRecord, DeathInfo, Relationships, Identifiers, Attributes, Encounters, CoreRecord]
   = default_form_values ''u''"
  using default_state_kept
    [of "no_data \<lparr> queue := [\<lparr> formValues = Some (default_form_values ''p2''),
                            initialAddressFieldValues = None \<rparr>] \<rparr>"
        "''p1''" sample_env "''u''"
        "[CoreRecord, DeathInfo, Relationships, Identifiers, Attributes, Encounters, CoreRecord]"]
  by (simp add: no_data_def default_form_values_def)

text \<open>
  C5.  While the core record is loading the first effect does not read the queue,
  whatever the identifier; it reads the queue exactly when there is no core record,
  loading has finished and the identifier is not empty.
\<close>

theorem draft_lookup_only_after_loading:
  "(isLoadingPatientToEdit src \<longrightarrow>
      ReadQueue \<notin> set (core_record_effect lib h cfg src uuid s)) \<and>
   (ReadQueue \<in> set (core_record_effect lib h cfg src uuid s) \<longleftrightarrow>
      patientToEdit src = None \<and> \<not> isLoadingPatientToEdit src \<and> uuid \<noteq> '''')"
  by (auto simp add: core_record_effect_def Let_def split: option.splits sum.splits)

text \<open>The same identifier while loading and after loading has finished.\<close>

theorem draft_lookup_only_after_loading_witness:
  "ReadQueue \<notin> set (core_record_effect sample_lib sample_helpers sample_cfg
                      (no_data \<lparr> isLoadingPatientToEdit := True \<rparr>) ''p1''
                      (default_form_values ''u'')) \<and>
   ReadQueue \<in> set (core_record_effect sample_lib sample_helpers sample_cfg
                      no_data ''p1'' (default_form_values ''u''))"
  using
    draft_lookup_only_after_loading
      [of "no_data \<lparr> isLoadingPatientToEdit := True \<rparr>" sample_lib sample_helpers sample_cfg
          "''p1''" "default_form_values ''u''"]
    draft_lookup_only_after_loading
      [of no_data sample_lib sample_helpers sample_cfg "''p1''" "default_form_values ''u''"]
  by (simp add: no_data_def)

text \<open>
  C6.  Two arrival orders of the merging effects (death information, relationships,
  identifiers, attributes, and the encounter observations as well) lead from any state to
  the same state.
\<close>

theorem merge_order_independent:
  assumes "mset effs = mset effs'" and "CoreRecord \<notin> set effs"
  shows "fold (run_effect e src uuid) effs s = fold (run_effect e src uuid) effs' s"
proof -
  have "\<And>x y. x \<in> set effs \<Longrightarrow> y \<in> set effs \<Longrightarrow>
          run_effect e src uuid x \<circ> run_effect e src uuid y =
          run_effect e src uuid y \<circ> run_effect e src uuid x"
    using assms(2) by (auto simp add: fun_eq_iff intro: merges_commute)
  from fold_multiset_equiv[OF this assms(1)] show ?thesis by simp
qed

text \<open>The four merges in one order and in the reverse order, all four sources
  resolved.\<close>

theorem merge_order_independent_witness:
  "fold (run_effect sample_env resolved_sources ''p1'')
     [DeathInfo, Relationships, Identifiers, Attributes] (default_form_values ''u'')
   = fold (run_effect sample_env resolved_sources ''p1'')
     [Attributes, Identifiers, Relationships, DeathInfo] (default_form_values ''u'')"
  using merge_order_independent
    [of "[DeathInfo, Relationships, Identifiers, Attributes]"
        "[Attributes, Identifiers, Relationships, DeathInfo]"
        sample_env resolved_sources "''p1''" "default_form_values ''u''"]
  by simp

text \<open>
  C7.  When there is a patient to edit, an encounter type is configured and the request
  has returned encounters, the observation map is built from one encounter, and no
  returned encounter has a later datetime than that one.  The map gives under the uuid of
  a concept the value of the last observation of that concept: the uuid of the referenced
  concept for a coded value, the value itself for a scalar.  Without a patient to edit the
  effect leaves the state as it is; with one, it stores the map in \<open>obs\<close>.
\<close>

theorem encounter_observations_latest:
  "(patientToEdit src = Some p \<and> encounterTypeUuid cfg \<noteq> '''' \<and>
    encounterResults src = Some results \<and> results \<noteq> [] \<longrightarrow>
      (\<exists>e \<in> set results.
          (\<forall>e' \<in> set results.
              dateParse lib (encounterDatetime e') \<le> dateParse lib (encounterDatetime e)) \<and>
          useInitialEncounters lib cfg src = Some (observation_map (encounterObs e)))) \<and>
   observation_map obss k =
     map_option observation_value (find (\<lambda>ob. concept ob = k) (rev obss)) \<and>
   observation_value \<lparr> concept = c, obsValue = Resource (Some u) \<rparr> = Str u \<and>
   (\<not> typeof_object v \<longrightarrow> observation_value \<lparr> concept = c, obsValue = v \<rparr> = v) \<and>
   (patientToEdit src = None \<longrightarrow> encounters_effect lib cfg src s = s) \<and>
   (patientToEdit src = Some p \<and> useInitialEncounters lib cfg src = Some m \<longrightarrow>
      encounters_effect lib cfg src s = s \<lparr> obs := Some m \<rparr>)"
proof (intro conjI impI)
  assume a: "patientToEdit src = Some p \<and> encounterTypeUuid cfg \<noteq> '''' \<and>
    encounterResults src = Some results \<and> results \<noteq> []"
  then have "results \<noteq> []" by simp
  then obtain e es where "sort_with (latestFirstEncounter lib) results = e # es"
    and "e \<in> set results"
    and "\<forall>e' \<in> set results.
           dateParse lib (encounterDatetime e') \<le> dateParse lib (encounterDatetime e)"
    by (rule latest_encounter_first)
  with a show "\<exists>e \<in> set results.
          (\<forall>e' \<in> set results.
              dateParse lib (encounterDatetime e') \<le> dateParse lib (encounterDatetime e)) \<and>
          useInitialEncounters lib cfg src = Some (observation_map (encounterObs e))"
    by (auto simp add: useInitialEncounters_def)
next
  show "observation_map obss k =
     map_option observation_value (find (\<lambda>ob. concept ob = k) (rev obss))"
    by (simp add: observation_map_def fold_update_lookup split: option.splits)
qed (simp_all add: observation_value_def encounters_effect_def)

text \<open>The newer of two encounters supplies the observations, and nothing is merged
  without a patient to edit.\<close>

theorem encounter_observations_latest_witness:
  "useInitialEncounters sample_lib sample_cfg
     (no_data \<lparr> patientToEdit := Some (sample_patient ''1990''),
                encounterResults := Some [older_encounter, newer_encounter] \<rparr>)
     = Some (observation_map (encounterObs newer_encounter)) \<and>
   observation_map (encounterObs newer_encounter) ''concept-civil-status''
     = Some (Str ''concept-married'') \<and>
   observation_map (encounterObs newer_encounter) ''concept-occupation''
     = Some (Str ''farmer'') \<and>
   observation_map (encounterObs newer_encounter) ''concept-weight'' = None \<and>
   encounters_effect sample_lib sample_cfg
     (no_data \<lparr> encounterResults := Some [older_encounter, newer_encounter] \<rparr>)
     (default_form_values ''u'') = default_form_values ''u'' \<and>
   encounters_effect sample_lib sample_cfg
     (no_data \<lparr> patientToEdit := Some (sample_patient ''1990''),
                encounterResults := Some [older_encounter, newer_encounter] \<rparr>)
     (default_form_values ''u'')
     = (default_form_values ''u'')
         \<lparr> obs := Some (observation_map (encounterObs newer_encounter)) \<rparr>"
proof -
  let ?src = "no_data \<lparr> patientToEdit := Some (sample_patient ''1990''),
                encounterResults := Some [older_encounter, newer_encounter] \<rparr>"
  note th = encounter_observations_latest
    [where cfg = sample_cfg and lib = sample_lib and obss = "encounterObs newer_encounter"
       and s = "default_form_values ''u''" and p = "sample_patient ''1990''"
       and m = "observation_map (encounterObs newer_encounter)"]
  have t: "dateParse sample_lib (encounterDatetime older_encounter) = 20230115"
          "dateParse sample_lib (encounterDatetime newer_encounter) = 20240501"
    by (simp_all add: sample_lib_def older_encounter_def newer_encounter_def sample_times)
  have 1: "useInitialEncounters sample_lib sample_cfg ?src
             = Some (observation_map (encounterObs newer_encounter))"
    using th[where src = ?src and results = "[older_encounter, newer_encounter]",
             THEN conjunct1] t
    by (auto simp add: no_data_def sample_cfg_def)
  have 2: "observation_map (encounterObs newer_encounter) ''concept-civil-status''
             = Some (Str ''concept-married'')"
    using th[where k = "''concept-civil-status''", THEN conjunct2, THEN conjunct1]
    by (simp add: newer_encounter_def observation_value_def)
  have 3: "observation_map (encounterObs newer_encounter) ''concept-occupation''
             = Some (Str ''farmer'')"
    using th[where k = "''concept-occupation''" and c = "''concept-occupation''"
               and v = "Str ''farmer''",
             THEN conjunct2]
    by (simp add: newer_encounter_def)
  have 4: "observation_map (encounterObs newer_encounter) ''concept-weight'' = None"
    using th[where k = "''concept-weight''", THEN conjunct2, THEN conjunct1]
    by (simp add: newer_encounter_def)
  have 5: "encounters_effect sample_lib sample_cfg
     (no_data \<lparr> encounterResults := Some [older_encounter, newer_encounter] \<rparr>)
     (default_form_values ''u'') = default_form_values ''u''"
    using th[where src = "no_data \<lparr> encounterResults := Some [older_encounter, newer_encounter] \<rparr>"]
    by (simp add: no_data_def)
  have 6: "encounters_effect sample_lib sample_cfg ?src (default_form_values ''u'')
     = (default_form_values ''u'')
         \<lparr> obs := Some (observation_map (encounterObs newer_encounter)) \<rparr>"
    using th[where src = ?src] 1
    by (simp add: no_data_def)
  from 1 2 3 4 5 6 show ?thesis by simp
qed

text \<open>
  C8.  The names \<^verbatim>\<open>National ID\<close> and \<^verbatim>\<open>Nationalid\<close> are the same once spaces are
  removed and letters are put in lower case, and their keys differ
  (\<^verbatim>\<open>nationalId\<close> and \<^verbatim>\<open>nationalid\<close>): names that differ only in letter case
  or whitespace do not always get the same key.
\<close>

theorem identifier_keys_counterexample:
  "map lower_char (removeAll CHR '' '' ''National ID'')
     = map lower_char (removeAll CHR '' '' ''Nationalid'') \<and>
   camelCase no_words ''National ID'' \<noteq> camelCase no_words ''Nationalid''"
  by (simp add: camelCase_National_ID camelCase_Nationalid char_defs)

text \<open>
  C8, as amended.  Two names that \<^verbatim>\<open>camelCase\<close> splits into the same words up to
  letter case get the same key; so do \<^verbatim>\<open>National ID\<close> and \<^verbatim>\<open>National Id\<close>.  The
  identifier map holds under a key the record made from the last result whose type name
  has that key, and every record in it starts with \<open>initialValue\<close> equal to
  \<open>identifierValue\<close>, no selected source and \<open>autoGeneration\<close> false.
\<close>

theorem identifier_keys_and_records:
  "(map toLowerCase (words w a) = map toLowerCase (words w b) \<longrightarrow>
      camelCase w a = camelCase w b) \<and>
   map toLowerCase (words w ''National ID'') = map toLowerCase (words w ''National Id'') \<and>
   camelCase w ''National ID'' = camelCase w ''National Id'' \<and>
   useInitialPatientIdentifiers w src k =
     map_option identifier_entry
       (find (\<lambda>patientIdentifier.
                camelCase w (typeName (piIdentifierType patientIdentifier)) = k)
          (rev (case identifierResults src of None \<Rightarrow> [] | Some results \<Rightarrow> results))) \<and>
   (useInitialPatientIdentifiers w src k = Some r \<longrightarrow>
      initialValue r = identifierValue r \<and> selectedSource r = None \<and> \<not> autoGeneration r)"
proof (intro conjI impI)
  assume "map toLowerCase (words w a) = map toLowerCase (words w b)"
  then show "camelCase w a = camelCase w b"
    using compound_lower[of "words w a" "words w b" 0 "[]"]
    by (simp add: camelCase_def)
next
  show "map toLowerCase (words w ''National ID'') = map toLowerCase (words w ''National Id'')"
    by (simp add: words_def asciiWords_def char_defs)
next
  show "camelCase w ''National ID'' = camelCase w ''National Id''"
    by (simp add: camelCase_National_ID camelCase_National_Id)
next
  show lookup: "useInitialPatientIdentifiers w src k =
     map_option identifier_entry
       (find (\<lambda>patientIdentifier.
                camelCase w (typeName (piIdentifierType patientIdentifier)) = k)
          (rev (case identifierResults src of None \<Rightarrow> [] | Some results \<Rightarrow> results)))"
    by (simp add: useInitialPatientIdentifiers_def fold_update_lookup split: option.splits)
  assume "useInitialPatientIdentifiers w src k = Some r"
  with lookup have "map_option identifier_entry
       (find (\<lambda>patientIdentifier.
                camelCase w (typeName (piIdentifierType patientIdentifier)) = k)
          (rev (case identifierResults src of None \<Rightarrow> [] | Some results \<Rightarrow> results)))
     = Some r" by simp
  then obtain x where r: "r = identifier_entry x" by auto
  show "initialValue r = identifierValue r" by (simp add: r identifier_entry_def)
  show "selectedSource r = None" by (simp add: r identifier_entry_def)
  show "\<not> autoGeneration r" by (simp add: r identifier_entry_def)
qed

text \<open>Two spellings of the same two words, and the map of one identifier of type
  \<^verbatim>\<open>National ID\<close>.\<close>

theorem identifier_keys_and_records_witness:
  "camelCase no_words ''National ID'' = camelCase no_words ''NATIONAL  id'' \<and>
   camelCase no_words ''National ID'' = camelCase no_words ''National Id'' \<and>
   useInitialPatientIdentifiers no_words resolved_sources ''nationalId''
     = Some sample_identifier_record \<and>
   initialValue sample_identifier_record = identifierValue sample_identifier_record \<and>
   selectedSource sample_identifier_record = None \<and>
   \<not> autoGeneration sample_identifier_record"
proof -
  note th = identifier_keys_and_records
    [of no_words "''National ID''" "''NATIONAL  id''" resolved_sources "''nationalId''"
        sample_identifier_record]
  have same_words: "map toLowerCase (words no_words ''National ID'')
      = map toLowerCase (words no_words ''NATIONAL  id'')"
    by (simp add: words_def asciiWords_def char_defs)
  from th[THEN conjunct1] same_words
  have 1: "camelCase no_words ''National ID'' = camelCase no_words ''NATIONAL  id''"
    by (rule mp)
  have 2: "camelCase no_words ''National ID'' = camelCase no_words ''National Id''"
    by (rule th[THEN conjunct2, THEN conjunct2, THEN conjunct1])
  have 3: "useInitialPatientIdentifiers no_words resolved_sources ''nationalId''
     = Some sample_identifier_record"
    using th[THEN conjunct2, THEN conjunct2, THEN conjunct2, THEN conjunct1]
    by (simp add: resolved_sources_def no_data_def camelCase_National_ID identifier_entry_def
          sample_identifier_record_def)
  from th[THEN conjunct2, THEN conjunct2, THEN conjunct2, THEN conjunct2] 3
  have 4: "initialValue sample_identifier_record = identifierValue sample_identifier_record \<and>
     selectedSource sample_identifier_record = None \<and>
     \<not> autoGeneration sample_identifier_record"
    by (rule mp)
  from 1 2 3 4 show ?thesis by simp
qed

text \<open>
  C9.  The state of the master-index hook is an object after any number of runs of its
  effect, with or without a master-index record, so the guard of the effect of the
  component holds and the effect calls the setter with that state: whatever the local
  hook had reconciled is replaced by it.  Without a master-index record the state put in
  place is the default state of the master-index hook, whose \<open>patientUuid\<close> is the
  identifier generated in that hook, not the one generated in the local hook.
\<close>

theorem mpi_state_replaces_local:
  "mpi_sync_effect (Some (useMpiInitialFormValues h cfg mpiPatient u_mpi n))
     = [SetState (useMpiInitialFormValues h cfg mpiPatient u_mpi n)] \<and>
   state_after (useInitialFormValuesLocal e src uuid u_local effs)
     (mpi_sync_effect (Some (useMpiInitialFormValues h cfg mpiPatient u_mpi n)))
     = useMpiInitialFormValues h cfg mpiPatient u_mpi n \<and>
   state_after (useInitialFormValuesLocal e src uuid u_local effs)
     (mpi_sync_effect (Some (useMpiInitialFormValues h cfg None u_mpi n)))
     = default_form_values u_mpi \<and>
   patientUuid (state_after (useInitialFormValuesLocal e src uuid u_local effs)
     (mpi_sync_effect (Some (useMpiInitialFormValues h cfg None u_mpi n)))) = u_mpi"
  by (simp add: mpi_sync_effect_def mpi_state_without_record default_form_values_def)

text \<open>On a queue whose drafts all carry form values the first effect of
  \<^verbatim>\<open>usePatientUuidMap\<close> replaces the state by the stored address values of the first
  matching draft, or by the fallback when every draft belongs to another patient; the
  attribute entries are laid over the state.\<close>

lemma uuid_map_on_drafts_with_form_values:
  assumes "patientToEdit src = None" and "\<not> isLoadingPatientToEdit src" and "uuid \<noteq> ''''"
  shows "(queue src = pre @ r # post \<and>
          (\<forall>item \<in> set pre. \<exists>fv. formValues item = Some fv \<and> patientUuid fv \<noteq> uuid) \<and>
          formValues r = Some fv \<and> patientUuid fv = uuid \<and>
          initialAddressFieldValues r = Some a \<longrightarrow>
            state_after m (uuid_map_effect h src uuid fallback m) = a) \<and>
         ((\<forall>item \<in> set (queue src). \<exists>fv. formValues item = Some fv \<and> patientUuid fv \<noteq> uuid) \<longrightarrow>
            state_after m (uuid_map_effect h src uuid fallback m) = fallback) \<and>
         (attributeResults src = Some attrs \<longrightarrow>
            uuid_map_attributes_effect src m = m ++ getPatientAttributeUuidMapForPatient attrs) \<and>
         getPatientAttributeUuidMapForPatient attrs k =
           map_option attributeUuid
             (find (\<lambda>attribute. ''attribute.'' @ attributeTypeUuid (attributeType attribute) = k)
                (rev attrs))"
proof (intro conjI impI)
  assume a: "queue src = pre @ r # post \<and>
          (\<forall>item \<in> set pre. \<exists>fv. formValues item = Some fv \<and> patientUuid fv \<noteq> uuid) \<and>
          formValues r = Some fv \<and> patientUuid fv = uuid \<and>
          initialAddressFieldValues r = Some a"
  then have "getPatientRegistration uuid (queue src) = Inr (Some r)"
    using lookup_some[of pre uuid r fv post] by simp
  with a assms show "state_after m (uuid_map_effect h src uuid fallback m) = a"
    by (simp add: uuid_map_effect_def)
next
  assume "\<forall>item \<in> set (queue src). \<exists>fv. formValues item = Some fv \<and> patientUuid fv \<noteq> uuid"
  then have "getPatientRegistration uuid (queue src) = Inr None" by (rule lookup_none)
  with assms show "state_after m (uuid_map_effect h src uuid fallback m) = fallback"
    by (simp add: uuid_map_effect_def)
next
  assume "attributeResults src = Some attrs"
  then show "uuid_map_attributes_effect src m = m ++ getPatientAttributeUuidMapForPatient attrs"
    by (simp add: uuid_map_attributes_effect_def)
next
  show "getPatientAttributeUuidMapForPatient attrs k =
           map_option attributeUuid
             (find (\<lambda>attribute. ''attribute.'' @ attributeTypeUuid (attributeType attribute) = k)
                (rev attrs))"
    by (simp add: getPatientAttributeUuidMapForPatient_def fold_update_lookup
          split: option.splits)
qed

text \<open>
  C10.  In \<^verbatim>\<open>usePatientUuidMap\<close>, with no core record, loading finished and the
  identifier \<^verbatim>\<open>p1\<close>: when the queue holds a draft without form values, the lookup
  raises a \<open>TypeError\<close> on it and the \<^verbatim>\<open>then\<close> callback never runs.  The state is not
  replaced by the fallback although no draft matches, and it is not replaced by the
  stored address values of a matching draft queued behind the draft without form
  values.
\<close>

theorem uuid_map_lookup_throws_on_draft_without_form_values:
  "uuid_map_effect h (no_data \<lparr> queue := [formless_draft] \<rparr>) ''p1'' fallback m
     = [ReadQueue, Throw TypeError] \<and>
   state_after m
     (uuid_map_effect h (no_data \<lparr> queue := [formless_draft] \<rparr>) ''p1'' fallback m) = m \<and>
   uuid_map_effect h (no_data \<lparr> queue := [formless_draft, matching_draft] \<rparr>) ''p1'' fallback m
     = [ReadQueue, Throw TypeError] \<and>
   state_after m
     (uuid_map_effect h (no_data \<lparr> queue := [formless_draft, matching_draft] \<rparr>) ''p1''
        fallback m) = m \<and>
   state_after m
     (uuid_map_effect h (no_data \<lparr> queue := [matching_draft] \<rparr>) ''p1'' fallback m)
     = [''country'' \<mapsto> ''Kenya'']"
  by (simp add: uuid_map_effect_def no_data_def formless_draft_def matching_draft_def
        default_form_values_def)

end
